theory Spec2Isabelle
  imports Main
begin

section \<open>The name check of the login handler\<close>

text \<open>
  \<^verbatim>\<open>regexp.MatchString("^[a-zA-Z]{2,35} {0,1}[a-zA-Z]{0,35}$", name)\<close>
  (server.go, line 78). The pattern is a sequence of three bounded repetitions of a
  character class, anchored at both ends of the text. A pattern of that shape is a list of
  pieces; a piece is a character class with its lower and upper repetition count.
  A character class is a list of inclusive byte ranges.
\<close>

type_synonym char_class = "(char \<times> char) list"

type_synonym piece = "char_class \<times> nat \<times> nat"

definition in_class :: "char_class \<Rightarrow> char \<Rightarrow> bool" where
  "in_class cls c = list_ex (\<lambda>(lo, hi). of_char lo \<le> (of_char c :: nat) \<and> (of_char c :: nat) \<le> of_char hi) cls"

text \<open>
  \<open>rep_rests cls lo hi s\<close> lists what is left of \<open>s\<close> after each way of reading between
  \<open>lo\<close> and \<open>hi\<close> characters of the class from its front.
\<close>

primrec rep_rests :: "char_class \<Rightarrow> nat \<Rightarrow> nat \<Rightarrow> string \<Rightarrow> string list" where
  "rep_rests cls lo 0 s = (if lo = 0 then [s] else [])"
| "rep_rests cls lo (Suc hi) s =
     (if lo = 0 then [s] else []) @
     (case s of
        [] \<Rightarrow> []
      | c # cs \<Rightarrow> if in_class cls c then rep_rests cls (lo - 1) hi cs else [])"

primrec rests :: "piece list \<Rightarrow> string \<Rightarrow> string list" where
  "rests [] s = [s]"
| "rests (p # ps) s =
     concat (map (rests ps) (rep_rests (fst p) (fst (snd p)) (snd (snd p)) s))"

text \<open>The anchors \<open>^\<close> and \<open>$\<close>: the whole text is read, nothing is left.\<close>

definition MatchString :: "piece list \<Rightarrow> string \<Rightarrow> bool" where
  "MatchString pat s = ([] \<in> set (rests pat s))"

definition letters :: char_class where
  "letters = [(CHR ''a'', CHR ''z''), (CHR ''A'', CHR ''Z'')]"

definition blank :: char_class where
  "blank = [(CHR '' '', CHR '' '')]"

definition name_pattern :: "piece list" where
  "name_pattern = [(letters, 2, 35), (blank, 0, 1), (letters, 0, 35)]"

definition validName :: "string \<Rightarrow> bool" where
  "validName name = MatchString name_pattern name"


section \<open>Constants of server.go\<close>

definition VERSION_NUMBER :: string where
  "VERSION_NUMBER = ''v1.0.8''"

definition TIME_LAYOUT :: string where
  "TIME_LAYOUT = ''3:04:05 PM''"

definition COOKIE_NAME :: string where
  "COOKIE_NAME = ''uuid''"

definition COOKIE_MAX_AGE :: int where
  "COOKIE_MAX_AGE = 86400"

text \<open>The status codes of net/http that the handlers name.\<close>

definition StatusFound :: nat where
  "StatusFound = 302"

definition StatusBadRequest :: nat where
  "StatusBadRequest = 400"

definition StatusNotFound :: nat where
  "StatusNotFound = 404"

definition StatusInternalServerError :: nat where
  "StatusInternalServerError = 500"

section \<open>The people package\<close>

text \<open>
  server.go imports \<^verbatim>\<open>github.com/patkaehuaea/server/people\<close> and calls
  \<^verbatim>\<open>people.NewUsers\<close>, \<^verbatim>\<open>people.NewPerson\<close>, \<^verbatim>\<open>users.Add\<close> and \<^verbatim>\<open>users.Name\<close>; it reads the fields
  \<^verbatim>\<open>person.ID\<close> and \<^verbatim>\<open>person.Name\<close>. The package itself is not among the sources, so the
  registry is modelled from the specification's sections 3 and 4.1.
\<close>

record Person =
  ID :: string
  Name :: string

text \<open>
  Modelled from the spec: the registry type of the absent people package, "a mapping from
  id to Person".
\<close>

type_synonym Users = "string \<rightharpoonup> Person"

text \<open>
  Modelled from the spec: \<^verbatim>\<open>people.NewUsers\<close> of the absent people package; the registry is
  "built once at process start, empty initially".
\<close>

definition NewUsers :: Users where
  "NewUsers = Map.empty"

text \<open>
  Modelled from the spec: \<^verbatim>\<open>people.NewPerson\<close> of the absent people package, which
  constructs "a new Person with a freshly generated unique identifier and the submitted
  name". How the identifier is generated is not specified, so the identifier the generator
  yields is an input \<open>newid\<close> of the model.
\<close>

definition NewPerson :: "string \<Rightarrow> string \<Rightarrow> Person" where
  "NewPerson newid name = \<lparr>ID = newid, Name = name\<rparr>"

text \<open>
  Modelled from the spec: \<^verbatim>\<open>Add\<close> of the absent people package: "inserts a Person keyed by
  its id. No uniqueness check is performed by the registry itself".
\<close>

definition Users_Add :: "Users \<Rightarrow> Person \<Rightarrow> Users" where
  "Users_Add users person = users(ID person \<mapsto> person)"

text \<open>
  Modelled from the spec: \<^verbatim>\<open>Name\<close> of the absent people package (the spec's NameOf):
  "returns the name of the Person with that id, or an empty result if no such id exists.
  Never fails".
\<close>

definition Users_Name :: "Users \<Rightarrow> string \<Rightarrow> string" where
  "Users_Name users ident = (case users ident of None \<Rightarrow> [] | Some person \<Rightarrow> Name person)"

section \<open>Requests and the response writer\<close>

text \<open>
  What the handlers read of an \<^verbatim>\<open>*http.Request\<close>: the method, the path of the URL, the
  cookies of the Cookie header (name and value, in header order) and the parsed form
  (key and value, in the order of precedence of \<^verbatim>\<open>FormValue\<close>).
\<close>

record Request =
  Method :: string
  URL_Path :: string
  Cookies :: "(string \<times> string) list"
  Form :: "(string \<times> string) list"

datatype error = ErrNoCookie

text \<open>\<^verbatim>\<open>r.Cookie(name)\<close>: the first cookie of that name, or \<^verbatim>\<open>ErrNoCookie\<close>.\<close>

definition Request_Cookie :: "Request \<Rightarrow> string \<Rightarrow> error + string" where
  "Request_Cookie r name = (case map_of (Cookies r) name of None \<Rightarrow> Inl ErrNoCookie | Some v \<Rightarrow> Inr v)"

text \<open>\<^verbatim>\<open>r.FormValue(key)\<close>: the first value of the key, the empty string when there is none.\<close>

definition FormValue :: "Request \<Rightarrow> string \<Rightarrow> string" where
  "FormValue r key = (case map_of (Form r) key of None \<Rightarrow> [] | Some v \<Rightarrow> v)"

text \<open>
  The \<^verbatim>\<open>http.Cookie\<close> literal of \<open>setCookie\<close> sets four fields. A cookie is kept as this
  struct, the way the handler hands it to \<^verbatim>\<open>http.SetCookie\<close>; how net/http writes it on the
  wire is not modelled.
\<close>

record HttpCookie =
  Cookie_Name :: string
  Cookie_Value :: string
  Cookie_Path :: string
  MaxAge :: int

text \<open>
  The data handed to a template: \<^verbatim>\<open>nil\<close>, a string, or the map of the time handler (its
  keys and values, as an association list).
\<close>

datatype Data = Nil_data | Str string | Params "(string \<times> string) list"

text \<open>
  What is written to the body: the output of a template executed on its data, the anchor
  that \<^verbatim>\<open>http.Redirect\<close> writes, or the text of \<^verbatim>\<open>http.Error\<close>. The bytes a template
  produces belong to the template files, so a page is recorded as the template's name and
  the data.
\<close>

datatype Chunk = Page string Data | Anchor string | Text string

text \<open>
  The response as it goes out: the status once the header has been written (\<open>None\<close> before),
  the Set-Cookie headers, the Location header and the body. Once the header is written,
  later changes of the header map are not sent, and a second \<^verbatim>\<open>WriteHeader\<close> is ignored.
\<close>

record ResponseWriter =
  Status :: "nat option"
  Set_Cookie :: "HttpCookie list"
  Location :: "string option"
  Body :: "Chunk list"

definition new_writer :: ResponseWriter where
  "new_writer = \<lparr>Status = None, Set_Cookie = [], Location = None, Body = []\<rparr>"

definition WriteHeader :: "ResponseWriter \<Rightarrow> nat \<Rightarrow> ResponseWriter" where
  "WriteHeader w code = (if Status w = None then w\<lparr>Status := Some code\<rparr> else w)"

text \<open>The first write sends the header with status 200 if none was sent before.\<close>

definition Write :: "ResponseWriter \<Rightarrow> Chunk \<Rightarrow> ResponseWriter" where
  "Write w chunk = (let w' = WriteHeader w 200 in w'\<lparr>Body := Body w' @ [chunk]\<rparr>)"

definition SetCookie :: "ResponseWriter \<Rightarrow> HttpCookie \<Rightarrow> ResponseWriter" where
  "SetCookie w c = (if Status w = None then w\<lparr>Set_Cookie := Set_Cookie w @ [c]\<rparr> else w)"

definition Header_Set_Location :: "ResponseWriter \<Rightarrow> string \<Rightarrow> ResponseWriter" where
  "Header_Set_Location w url = (if Status w = None then w\<lparr>Location := Some url\<rparr> else w)"

text \<open>
  \<^verbatim>\<open>http.Redirect(w, r, url, code)\<close> for a URL that is an absolute, clean path (the two the
  handlers pass are \<^verbatim>\<open>/login\<close> and \<^verbatim>\<open>/\<close>): the Location header, the status, and for a
  GET request a short anchor to the target.
\<close>

definition Redirect :: "ResponseWriter \<Rightarrow> Request \<Rightarrow> string \<Rightarrow> nat \<Rightarrow> ResponseWriter" where
  "Redirect w r url code =
     (let w1 = WriteHeader (Header_Set_Location w url) code
      in if Method r = ''GET'' then Write w1 (Anchor url) else w1)"

definition http_Error :: "ResponseWriter \<Rightarrow> string \<Rightarrow> nat \<Rightarrow> ResponseWriter" where
  "http_Error w err code = Write (WriteHeader w code) (Text err)"

text \<open>When a handler returns, the server sends status 200 if the handler sent none.\<close>

definition finishRequest :: "ResponseWriter \<Rightarrow> ResponseWriter" where
  "finishRequest w = WriteHeader w 200"

section \<open>Process exit\<close>

text \<open>
  A step of a handler either goes on with the response writer, or the process has exited
  with a code; what had been written to the response by then is kept with it.
\<close>

datatype outcome = Running ResponseWriter | Exited int ResponseWriter

definition and_then :: "outcome \<Rightarrow> (ResponseWriter \<Rightarrow> outcome) \<Rightarrow> outcome" where
  "and_then out f = (case out of Running w \<Rightarrow> f w | Exited code w \<Rightarrow> Exited code w)"

text \<open>\<^verbatim>\<open>log.Fatal\<close> of logrus writes the entry to the log and then calls \<^verbatim>\<open>os.Exit(1)\<close>.\<close>

definition log_Fatal :: "string \<Rightarrow> ResponseWriter \<Rightarrow> outcome" where
  "log_Fatal msg w = Exited 1 w"

section \<open>Templates\<close>

text \<open>
  \<^verbatim>\<open>var templates = template.Must(template.ParseGlob(... "templates", "*.html"))\<close>: the
  templates are those of the files found at start-up, each named by its file name. The
  set is an input of the model: the list of the names found. \<^verbatim>\<open>ExecuteTemplate\<close> returns
  an error, and writes nothing, when no template has the name asked for. (An error while a
  template that exists is executed, such as a failed write to the connection, is not
  modelled.)
\<close>

definition ExecuteTemplate :: "string list \<Rightarrow> ResponseWriter \<Rightarrow> string \<Rightarrow> Data \<Rightarrow> ResponseWriter \<times> string option" where
  "ExecuteTemplate templates w name d =
     (if name \<in> set templates then (Write w (Page name d), None)
      else (w, Some (''html/template: '' @ [CHR 0x22] @ name @ [CHR 0x22] @ '' is undefined'')))"

definition renderTemplate :: "string list \<Rightarrow> ResponseWriter \<Rightarrow> string \<Rightarrow> Data \<Rightarrow> outcome" where
  "renderTemplate templates w templ d =
     (case ExecuteTemplate templates w (templ @ ''.html'') d of
        (w', None) \<Rightarrow> Running w'
      | (w', Some err) \<Rightarrow>
          and_then (log_Fatal (''Error looking for template: '' @ templ) w')
            (\<lambda>w''. Running (http_Error w'' err StatusInternalServerError)))"

definition setCookie :: "ResponseWriter \<Rightarrow> string \<Rightarrow> int \<Rightarrow> ResponseWriter" where
  "setCookie w uuid maxAge =
     (let c = \<lparr>Cookie_Name = COOKIE_NAME, Cookie_Value = uuid, Cookie_Path = ''/'', MaxAge = maxAge\<rparr>
      in SetCookie w c)"

definition idFromUUIDCookie :: "Request \<Rightarrow> string \<times> error option" where
  "idFromUUIDCookie r =
     (case Request_Cookie r COOKIE_NAME of
        Inl err \<Rightarrow> ([], Some ErrNoCookie)
      | Inr v \<Rightarrow> (v, None))"

section \<open>The clock\<close>

text \<open>
  \<^verbatim>\<open>time.Now().Format(TIME_LAYOUT)\<close>. The reading of the clock is an input of the model; of
  the layout verbs of Go's time package the formatter below knows those of the clock
  (\<^verbatim>\<open>15\<close>, \<^verbatim>\<open>3\<close>, \<^verbatim>\<open>03\<close>, \<^verbatim>\<open>4\<close>, \<^verbatim>\<open>04\<close>, \<^verbatim>\<open>5\<close>, \<^verbatim>\<open>05\<close>, \<^verbatim>\<open>PM\<close>), which are the
  ones \<open>TIME_LAYOUT\<close> uses, and copies every other character.
\<close>

record Time =
  Hour :: nat
  Minute :: nat
  Second :: nat

definition digit :: "nat \<Rightarrow> char" where
  "digit n = char_of (48 + n mod 10)"

definition itoa :: "nat \<Rightarrow> string" where
  "itoa n = (if n < 10 then [digit n] else [digit (n div 10), digit n])"

definition zero_pad :: "nat \<Rightarrow> string" where
  "zero_pad n = [digit (n div 10), digit n]"

definition hour12 :: "Time \<Rightarrow> nat" where
  "hour12 t = (if Hour t mod 12 = 0 then 12 else Hour t mod 12)"

fun Format :: "Time \<Rightarrow> string \<Rightarrow> string" where
  "Format t [] = []"
| "Format t [c] =
     (if c = CHR ''3'' then itoa (hour12 t)
      else if c = CHR ''4'' then itoa (Minute t)
      else if c = CHR ''5'' then itoa (Second t)
      else [c])"
| "Format t (c # d # cs) =
     (if c = CHR ''1'' \<and> d = CHR ''5'' then zero_pad (Hour t) @ Format t cs
      else if c = CHR ''0'' \<and> d = CHR ''3'' then zero_pad (hour12 t) @ Format t cs
      else if c = CHR ''0'' \<and> d = CHR ''4'' then zero_pad (Minute t) @ Format t cs
      else if c = CHR ''0'' \<and> d = CHR ''5'' then zero_pad (Second t) @ Format t cs
      else if c = CHR ''P'' \<and> d = CHR ''M'' then (if 12 \<le> Hour t then ''PM'' else ''AM'') @ Format t cs
      else if c = CHR ''3'' then itoa (hour12 t) @ Format t (d # cs)
      else if c = CHR ''4'' then itoa (Minute t) @ Format t (d # cs)
      else if c = CHR ''5'' then itoa (Second t) @ Format t (d # cs)
      else c # Format t (d # cs))"

section \<open>The handlers\<close>

text \<open>
  \<open>users\<close> is the global registry: every handler takes it and returns it, changed or not.
  The log lines (\<open>info\<close>, \<open>debug\<close>, \<^verbatim>\<open>log.Debug\<close>) write to the log only and are left out;
  \<^verbatim>\<open>log.Fatal\<close> is kept, as it ends the process.
\<close>

definition handleDefault :: "string list \<Rightarrow> Users \<Rightarrow> Request \<Rightarrow> ResponseWriter \<Rightarrow> Users \<times> outcome" where
  "handleDefault templates users r w =
     (let ident = fst (idFromUUIDCookie r);
          name = Users_Name users ident
      in if name \<noteq> [] then (users, renderTemplate templates w ''greetings'' (Str name))
         else (users, Running (Redirect w r ''/login'' StatusFound)))"

text \<open>
  The third argument is the identifier that the generator inside \<^verbatim>\<open>people.NewPerson\<close>
  yields if it is called while this request is handled.
\<close>

definition handleLogin :: "string list \<Rightarrow> Users \<Rightarrow> string \<Rightarrow> Request \<Rightarrow> ResponseWriter \<Rightarrow> Users \<times> outcome" where
  "handleLogin templates users newid r w =
     (if Method r = ''GET'' then (users, renderTemplate templates w ''login'' Nil_data)
      else if Method r = ''POST'' then
        (let name = FormValue r ''name''
         in if validName name then
              (let person = NewPerson newid name;
                   users' = Users_Add users person;
                   w1 = setCookie w (ID person) COOKIE_MAX_AGE;
                   w2 = Redirect w1 r ''/'' StatusFound
               in (users', Running w2))
            else (users, renderTemplate templates (WriteHeader w StatusBadRequest) ''login''
                           (Str ''C'mon, I need a name.'')))
      else (users, Running w))"

definition handleLogout :: "string list \<Rightarrow> Users \<Rightarrow> Request \<Rightarrow> ResponseWriter \<Rightarrow> Users \<times> outcome" where
  "handleLogout templates users r w =
     (users, renderTemplate templates (setCookie w ''deleted'' (- 1)) ''logged-out'' Nil_data)"

definition handleNotFound :: "string list \<Rightarrow> Users \<Rightarrow> Request \<Rightarrow> ResponseWriter \<Rightarrow> Users \<times> outcome" where
  "handleNotFound templates users r w =
     (users, renderTemplate templates (WriteHeader w StatusNotFound) ''404'' Nil_data)"

definition handleTime :: "string list \<Rightarrow> Users \<Rightarrow> Time \<Rightarrow> Request \<Rightarrow> ResponseWriter \<Rightarrow> Users \<times> outcome" where
  "handleTime templates users now r w =
     (let ident = fst (idFromUUIDCookie r);
          params = Params [(''time'', Format now TIME_LAYOUT), (''name'', Users_Name users ident)]
      in (users, renderTemplate templates w ''time'' params))"

section \<open>The router and the serving of requests\<close>

text \<open>
  A request arrives together with what the handlers take from their surroundings while
  they handle it: the reading of the clock, and the identifier the generator yields.
\<close>

record Arrival =
  Req :: Request
  Now :: Time
  NewID :: string

text \<open>
  The routes of \<open>main\<close>: four handlers on five exact paths, whatever the method, and the
  not-found handler for every other path. The path is the clean path of the URL (what the
  router does with a path that is not clean is not modelled). The server finishes the
  response when the handler has returned.
\<close>

definition serveHTTP :: "string list \<Rightarrow> Users \<Rightarrow> Arrival \<Rightarrow> Users \<times> outcome" where
  "serveHTTP templates users a =
     (let r = Req a;
          w = new_writer;
          (users', out) =
            (if URL_Path r = ''/'' then handleDefault templates users r w
             else if URL_Path r = ''/index.html'' then handleDefault templates users r w
             else if URL_Path r = ''/login'' then handleLogin templates users (NewID a) r w
             else if URL_Path r = ''/logout'' then handleLogout templates users r w
             else if URL_Path r = ''/time'' then handleTime templates users (Now a) r w
             else handleNotFound templates users r w)
      in (users', and_then out (\<lambda>w'. Running (finishRequest w'))))"

text \<open>
  The life of the process: requests are handled one after the other, each on the registry
  the one before left, until the process exits. (The handlers run concurrently in Go; each
  of them calls the registry at most once, so on the registry their effect is that of
  some sequence.)
\<close>

datatype process = Alive Users | Dead int

fun run :: "string list \<Rightarrow> Users \<Rightarrow> Arrival list \<Rightarrow> process \<times> ResponseWriter list" where
  "run templates users [] = (Alive users, [])"
| "run templates users (a # as) =
     (case serveHTTP templates users a of
        (users', Running w) \<Rightarrow> (case run templates users' as of (p, ws) \<Rightarrow> (p, w # ws))
      | (users', Exited code w) \<Rightarrow> (Dead code, []))"

text \<open>
  Modelled from the spec: the identifier generator of the absent people package. An
  identifier is "generated at creation, unique across the registry's lifetime";
  "uniqueness is guaranteed by the caller always generating a fresh identifier before
  calling Add". Along a run, the identifier of each arrival is not yet in the registry.
\<close>

fun fresh_ids :: "string list \<Rightarrow> Users \<Rightarrow> Arrival list \<Rightarrow> bool" where
  "fresh_ids templates users [] = True"
| "fresh_ids templates users (a # as) =
     (users (NewID a) = None \<and> fresh_ids templates (fst (serveHTTP templates users a)) as)"

section \<open>Start-up: the two \<open>main\<close> functions\<close>

text \<open>
  The variables behind \<^verbatim>\<open>flag.String("port", "8080", ...)\<close> and
  \<^verbatim>\<open>flag.Bool("V", false, ...)\<close>: they hold the defaults until \<^verbatim>\<open>flag.Parse\<close> stores what
  the command line gives.
\<close>

record Flags =
  port :: string
  V :: bool

definition flag_defaults :: Flags where
  "flag_defaults = \<lparr>port = ''8080'', V = False\<rparr>"

text \<open>\<^verbatim>\<open>strconv.ParseBool\<close>, which reads the value of \<^verbatim>\<open>-V=...\<close>.\<close>

definition ParseBool :: "string \<Rightarrow> bool option" where
  "ParseBool s =
     (if s \<in> set [''1'', ''t'', ''T'', ''TRUE'', ''true'', ''True''] then Some True
      else if s \<in> set [''0'', ''f'', ''F'', ''FALSE'', ''false'', ''False''] then Some False
      else None)"

text \<open>
  A flag argument is split at its first \<^verbatim>\<open>=\<close> that is not its first character, as the
  loop of \<^verbatim>\<open>parseOne\<close> in Go's flag package does: the name, and the value when there is one.
\<close>

fun split_flag :: "string \<Rightarrow> string \<Rightarrow> string \<times> string option" where
  "split_flag acc [] = (acc, None)"
| "split_flag acc (c # cs) =
     (if c = CHR ''='' \<and> acc \<noteq> [] then (acc, Some cs) else split_flag (acc @ [c]) cs)"

text \<open>
  \<^verbatim>\<open>flag.Parse()\<close> on the two flags of the program. Flags are read until the first
  argument that is not a flag, or \<^verbatim>\<open>--\<close>; one or two leading dashes are the same. The
  command line flag set exits with code 2 on an error (a flag that is not defined, which
  includes \<^verbatim>\<open>-h\<close> and \<^verbatim>\<open>-help\<close>, a missing or bad value): that is \<open>Inl 2\<close>.
\<close>

fun flag_Parse :: "Flags \<Rightarrow> string list \<Rightarrow> int + Flags" where
  "flag_Parse f [] = Inr f"
| "flag_Parse f (s # rest) =
     (if length s < 2 \<or> hd s \<noteq> CHR ''-'' then Inr f
      else if s = ''--'' then Inr f
      else
        (let name = (if s ! 1 = CHR ''-'' then drop 2 s else drop 1 s)
         in if name = [] \<or> hd name = CHR ''-'' \<or> hd name = CHR ''='' then Inl 2
            else
              (case split_flag [] name of
                 (n, value) \<Rightarrow>
                   if n = ''port'' then
                     (case value of
                        Some v \<Rightarrow> flag_Parse (f\<lparr>port := v\<rparr>) rest
                      | None \<Rightarrow>
                          (case rest of
                             [] \<Rightarrow> Inl 2
                           | v # rest' \<Rightarrow> flag_Parse (f\<lparr>port := v\<rparr>) rest'))
                   else if n = ''V'' then
                     (case value of
                        Some v \<Rightarrow>
                          (case ParseBool v of
                             None \<Rightarrow> Inl 2
                           | Some b \<Rightarrow> flag_Parse (f\<lparr>V := b\<rparr>) rest)
                      | None \<Rightarrow> flag_Parse (f\<lparr>V := True\<rparr>) rest)
                   else Inl 2)))"

text \<open>
  How \<open>main\<close> ends: the process exits with a code, having printed a text, or it calls
  \<^verbatim>\<open>http.ListenAndServe\<close> on an address.
\<close>

datatype action = Exit int string | ListenAndServe string

definition newline :: string where
  "newline = [CHR 0x0A]"

text \<open>
  \<open>main\<close> of server.go: the flags are parsed first, then \<open>portParam\<close> is read from the
  port variable.
\<close>

definition main :: "string list \<Rightarrow> action" where
  "main args =
     (case flag_Parse flag_defaults args of
        Inl code \<Rightarrow> Exit code []
      | Inr flags \<Rightarrow>
          (let portParam = '':'' @ port flags
           in if V flags then Exit 1 (''Version number: '' @ VERSION_NUMBER @ '' '' @ newline)
              else ListenAndServe portParam))"

text \<open>
  \<open>main\<close> of the second server file (version v1.0.1): \<open>portString\<close> is read from the port
  variable before the flags are parsed.
\<close>

definition main_v101 :: "string list \<Rightarrow> action" where
  "main_v101 args =
     (let portString = '':'' @ port flag_defaults
      in case flag_Parse flag_defaults args of
           Inl code \<Rightarrow> Exit code []
         | Inr flags \<Rightarrow>
             if V flags then Exit 1 (''Version number: '' @ ''v1.0.1'' @ '' '' @ newline)
             else ListenAndServe portString)"

section \<open>The grammar of names as the specification words it\<close>

text \<open>
  The specification's grammar, to compare with \<open>validName\<close>: "one run of 2--35 alphabetic
  characters, optionally followed by a single space and a second run of 0--35 alphabetic
  characters. Reject anything else (digits, punctuation, leading/trailing space beyond the
  single separator, empty string, overlong runs)". The first run is the letters up to the
  first character that is not a letter; what follows it is nothing, or the space and the
  second run.
\<close>

definition spec_name_grammar :: "string \<Rightarrow> bool" where
  "spec_name_grammar s =
     (let run1 = takeWhile (in_class letters) s; after = dropWhile (in_class letters) s
      in 2 \<le> length run1 \<and> length run1 \<le> 35 \<and>
         (case after of
            [] \<Rightarrow> True
          | c # run2 \<Rightarrow> c = CHR '' '' \<and> list_all (in_class letters) run2 \<and> length run2 \<le> 35))"

section \<open>Example inputs\<close>

text \<open>
  A request with a method, a path, cookies and form values, arriving at 5:59:36 PM (the
  time of the README's sample output) while the generator is about to yield \<open>id-1\<close>.
\<close>

definition arrival :: "string \<Rightarrow> string \<Rightarrow> (string \<times> string) list \<Rightarrow> (string \<times> string) list \<Rightarrow> Arrival" where
  "arrival m p cs fs =
     \<lparr>Req = \<lparr>Method = m, URL_Path = p, Cookies = cs, Form = fs\<rparr>,
      Now = \<lparr>Hour = 17, Minute = 59, Second = 36\<rparr>,
      NewID = ''id-1''\<rparr>"

text \<open>A registry that holds one person.\<close>

definition jane_only :: Users where
  "jane_only = Users_Add NewUsers (NewPerson ''id-0'' ''Jane Doe'')"

lemma rep_rests_iff:
  "r \<in> set (rep_rests cls lo hi s) \<longleftrightarrow>
     (\<exists>a. s = a @ r \<and> list_all (in_class cls) a \<and> lo \<le> length a \<and> length a \<le> hi)"
proof (induction hi arbitrary: lo s)
  case 0
  then show ?case by auto
next
  case (Suc hi)
  show ?case
  proof (cases s)
    case Nil
    then show ?thesis by auto
  next
    case (Cons c cs)
    show ?thesis
    proof
      assume "r \<in> set (rep_rests cls lo (Suc hi) s)"
      then consider "lo = 0" "r = s"
        | "in_class cls c" "r \<in> set (rep_rests cls (lo - 1) hi cs)"
        using Cons by (auto split: if_splits)
      then show "\<exists>a. s = a @ r \<and> list_all (in_class cls) a \<and> lo \<le> length a \<and> length a \<le> Suc hi"
      proof cases
        case 1
        then show ?thesis by (intro exI[of _ "[]"]) simp
      next
        case 2
        then obtain a where "cs = a @ r" "list_all (in_class cls) a" "lo - 1 \<le> length a" "length a \<le> hi"
          using Suc.IH by blast
        then show ?thesis using 2(1) Cons by (intro exI[of _ "c # a"]) auto
      qed
    next
      assume "\<exists>a. s = a @ r \<and> list_all (in_class cls) a \<and> lo \<le> length a \<and> length a \<le> Suc hi"
      then obtain a where a: "s = a @ r" "list_all (in_class cls) a" "lo \<le> length a" "length a \<le> Suc hi"
        by blast
      show "r \<in> set (rep_rests cls lo (Suc hi) s)"
      proof (cases a)
        case Nil
        then show ?thesis using a by simp
      next
        case (Cons x xs)
        then have "x = c" "cs = xs @ r" using a(1) \<open>s = c # cs\<close> by auto
        moreover have "list_all (in_class cls) xs" "lo - 1 \<le> length xs" "length xs \<le> hi" "in_class cls c"
          using a Cons \<open>x = c\<close> by auto
        ultimately have "r \<in> set (rep_rests cls (lo - 1) hi cs)"
          using Suc.IH by blast
        then show ?thesis using \<open>s = c # cs\<close> \<open>in_class cls c\<close> by simp
      qed
    qed
  qed
qed

lemma rests_name_pattern:
  "[] \<in> set (rests name_pattern s) \<longleftrightarrow>
     (\<exists>r1 \<in> set (rep_rests letters 2 35 s). \<exists>r2 \<in> set (rep_rests blank 0 1 r1). [] \<in> set (rep_rests letters 0 35 r2))"
  by (simp add: name_pattern_def)

lemma in_class_blank: "in_class blank c \<longleftrightarrow> c = CHR '' ''"
proof -
  have "(of_char c :: nat) = of_char (CHR '' '') \<longleftrightarrow> c = CHR '' ''"
    by (rule of_char_eq_iff)
  then show ?thesis by (auto simp: in_class_def blank_def)
qed

lemma blank_run: "list_all (in_class blank) sp \<and> length sp \<le> 1 \<longleftrightarrow> sp = [] \<or> sp = '' ''"
  by (cases sp) (auto simp: in_class_blank)

lemma validName_iff:
  "validName s \<longleftrightarrow>
     (\<exists>a sp b. s = a @ sp @ b \<and>
        list_all (in_class letters) a \<and> 2 \<le> length a \<and> length a \<le> 35 \<and>
        (sp = [] \<or> sp = '' '') \<and>
        list_all (in_class letters) b \<and> length b \<le> 35)"
proof -
  have "validName s \<longleftrightarrow>
     (\<exists>a sp b. s = a @ sp @ b \<and>
        list_all (in_class letters) a \<and> 2 \<le> length a \<and> length a \<le> 35 \<and>
        (list_all (in_class blank) sp \<and> length sp \<le> 1) \<and>
        list_all (in_class letters) b \<and> length b \<le> 35)"
    unfolding validName_def MatchString_def rests_name_pattern rep_rests_iff Bex_def
    by (simp; blast)
  then show ?thesis unfolding blank_run .
qed


lemma blank_not_letter: "\<not> in_class letters CHR '' ''"
  by (simp add: in_class_def letters_def)

lemma takeWhile_all: "list_all P xs \<Longrightarrow> takeWhile P xs = xs"
  by (induction xs) auto

lemma validName_code:
  "validName s \<longleftrightarrow>
     (let a = takeWhile (in_class letters) s; r = dropWhile (in_class letters) s
      in 2 \<le> length a \<and>
         (case r of
            [] \<Rightarrow> length a \<le> 70
          | c # b \<Rightarrow> c = CHR '' '' \<and> length a \<le> 35 \<and> list_all (in_class letters) b \<and> length b \<le> 35))"
  (is "_ \<longleftrightarrow> ?R")
proof
  assume "validName s"
  then obtain a sp b where s: "s = a @ sp @ b" and a: "list_all (in_class letters) a" "2 \<le> length a" "length a \<le> 35"
    and sp: "sp = [] \<or> sp = '' ''" and b: "list_all (in_class letters) b" "length b \<le> 35"
    unfolding validName_iff by blast
  from sp show ?R
  proof
    assume "sp = []"
    then have "list_all (in_class letters) s" using s a b by simp
    then have tw: "takeWhile (in_class letters) s = s" "dropWhile (in_class letters) s = []"
      by (simp_all add: takeWhile_all list_all_iff)
    have "length s = length a + length b" using s \<open>sp = []\<close> by simp
    then show ?R unfolding Let_def tw using a b by simp
  next
    assume "sp = '' ''"
    then have "s = a @ CHR '' '' # b" using s by simp
    moreover have "\<forall>x\<in>set a. in_class letters x" using a by (simp add: list_all_iff)
    ultimately have tw: "takeWhile (in_class letters) s = a" "dropWhile (in_class letters) s = CHR '' '' # b"
      using blank_not_letter by (simp_all add: takeWhile_append2 dropWhile_append2)
    show ?R unfolding Let_def tw using a b by simp
  qed
next
  assume R: ?R
  let ?a = "takeWhile (in_class letters) s"
  let ?r = "dropWhile (in_class letters) s"
  have s: "s = ?a @ ?r" by simp
  have la: "list_all (in_class letters) ?a" by (simp add: list_all_iff) (meson set_takeWhileD)
  show "validName s"
  proof (cases ?r)
    case Nil
    have sa: "?a = s"
      using takeWhile_dropWhile_id [of "in_class letters" s] unfolding Nil by simp
    have "2 \<le> length ?a \<and> length ?a \<le> 70"
      using R unfolding Let_def Nil by simp
    then have len: "2 \<le> length s" "length s \<le> 70" and all: "list_all (in_class letters) s"
      using la unfolding sa by simp_all
    have "s = take 35 s @ [] @ drop 35 s" by simp
    moreover have "list_all (in_class letters) (take 35 s)" "list_all (in_class letters) (drop 35 s)"
      using all by (auto simp: list_all_iff dest: in_set_takeD in_set_dropD)
    moreover have "2 \<le> length (take 35 s)" "length (take 35 s) \<le> 35" "length (drop 35 s) \<le> 35"
      using len by auto
    ultimately show ?thesis unfolding validName_iff by blast
  next
    case (Cons c b)
    have "c = CHR '' ''" "length ?a \<le> 35" "2 \<le> length ?a" "list_all (in_class letters) b" "length b \<le> 35"
      using R unfolding Let_def Cons by simp_all
    moreover have "s = ?a @ '' '' @ b" using s Cons \<open>c = CHR '' ''\<close> by simp
    ultimately show ?thesis unfolding validName_iff using la by blast
  qed
qed


section \<open>Unfolding the model\<close>

lemmas writer_defs =
  new_writer_def WriteHeader_def Write_def SetCookie_def Header_Set_Location_def
  Redirect_def http_Error_def finishRequest_def setCookie_def

lemmas render_defs =
  and_then_def log_Fatal_def ExecuteTemplate_def renderTemplate_def

lemmas status_defs =
  StatusFound_def StatusBadRequest_def StatusNotFound_def StatusInternalServerError_def
  COOKIE_NAME_def COOKIE_MAX_AGE_def

lemmas registry_defs =
  NewUsers_def NewPerson_def Users_Add_def Users_Name_def

lemma serveHTTP_login:
  "URL_Path (Req a) = ''/login'' \<Longrightarrow>
   serveHTTP templates users a =
     (case handleLogin templates users (NewID a) (Req a) new_writer of
        (users', out) \<Rightarrow> (users', and_then out (\<lambda>w'. Running (finishRequest w'))))"
  by (simp add: serveHTTP_def Let_def)

section \<open>Login with a valid name\<close>

text \<open>
  Claim C1. For every name that the name check accepts, a POST to \<^verbatim>\<open>/login\<close> adds
  exactly one entry to the registry, a Person with the newly generated identifier and that
  name; it sets the cookie \<open>uuid\<close> to the new identifier with Max-Age 86400 and path
  \<^verbatim>\<open>/\<close>, and answers 302 with Location \<^verbatim>\<open>/\<close> (and no body, the request being a
  POST). Looking the new identifier up afterwards gives exactly the submitted name. The
  generated identifier is fresh, as the specification requires of the generator.
\<close>

theorem login_submit_valid:
  assumes "URL_Path (Req a) = ''/login''" and "Method (Req a) = ''POST''"
    and "validName (FormValue (Req a) ''name'')" and "users (NewID a) = None"
  shows "serveHTTP templates users a =
           (users(NewID a \<mapsto> \<lparr>ID = NewID a, Name = FormValue (Req a) ''name''\<rparr>),
            Running \<lparr>Status = Some 302,
                     Set_Cookie = [\<lparr>Cookie_Name = ''uuid'', Cookie_Value = NewID a,
                                    Cookie_Path = ''/'', MaxAge = 86400\<rparr>],
                     Location = Some ''/'', Body = []\<rparr>) \<and>
         dom (fst (serveHTTP templates users a)) = insert (NewID a) (dom users) \<and>
         NewID a \<notin> dom users \<and>
         (\<forall>i. i \<noteq> NewID a \<longrightarrow> fst (serveHTTP templates users a) i = users i) \<and>
         Users_Name (fst (serveHTTP templates users a)) (NewID a) = FormValue (Req a) ''name''"
proof -
  have eq: "serveHTTP templates users a =
           (users(NewID a \<mapsto> \<lparr>ID = NewID a, Name = FormValue (Req a) ''name''\<rparr>),
            Running \<lparr>Status = Some 302,
                     Set_Cookie = [\<lparr>Cookie_Name = ''uuid'', Cookie_Value = NewID a,
                                    Cookie_Path = ''/'', MaxAge = 86400\<rparr>],
                     Location = Some ''/'', Body = []\<rparr>)"
    using assms(1-3)
    by (simp add: serveHTTP_login handleLogin_def Let_def writer_defs render_defs status_defs registry_defs)
  show ?thesis
    unfolding eq using assms(4) by (auto simp: Users_Name_def)
qed

theorem login_submit_valid_witness:
  "URL_Path (Req (arrival ''POST'' ''/login'' [] [(''name'', ''Jane Doe'')])) = ''/login'' \<and>
   Method (Req (arrival ''POST'' ''/login'' [] [(''name'', ''Jane Doe'')])) = ''POST'' \<and>
   validName (FormValue (Req (arrival ''POST'' ''/login'' [] [(''name'', ''Jane Doe'')])) ''name'') \<and>
   NewUsers (NewID (arrival ''POST'' ''/login'' [] [(''name'', ''Jane Doe'')])) = None \<and>
   serveHTTP [] NewUsers (arrival ''POST'' ''/login'' [] [(''name'', ''Jane Doe'')]) =
     (NewUsers(''id-1'' \<mapsto> \<lparr>ID = ''id-1'', Name = ''Jane Doe''\<rparr>),
      Running \<lparr>Status = Some 302,
               Set_Cookie = [\<lparr>Cookie_Name = ''uuid'', Cookie_Value = ''id-1'',
                              Cookie_Path = ''/'', MaxAge = 86400\<rparr>],
               Location = Some ''/'', Body = []\<rparr>) \<and>
   Users_Name (fst (serveHTTP [] NewUsers (arrival ''POST'' ''/login'' [] [(''name'', ''Jane Doe'')]))) ''id-1'' = ''Jane Doe''"
proof -
  have h: "URL_Path (Req (arrival ''POST'' ''/login'' [] [(''name'', ''Jane Doe'')])) = ''/login''"
    "Method (Req (arrival ''POST'' ''/login'' [] [(''name'', ''Jane Doe'')])) = ''POST''"
    "validName (FormValue (Req (arrival ''POST'' ''/login'' [] [(''name'', ''Jane Doe'')])) ''name'')"
    "NewUsers (NewID (arrival ''POST'' ''/login'' [] [(''name'', ''Jane Doe'')])) = None"
    by (simp_all add: arrival_def FormValue_def NewUsers_def validName_code in_class_def letters_def)
  show ?thesis
    using h login_submit_valid [where a = "arrival ''POST'' ''/login'' [] [(''name'', ''Jane Doe'')]"
        and users = NewUsers and templates = "[]"]
    by (simp add: arrival_def FormValue_def Users_Name_def)
qed

lemma serveHTTP_default:
  "URL_Path (Req a) = ''/'' \<or> URL_Path (Req a) = ''/index.html'' \<Longrightarrow>
   serveHTTP templates users a =
     (case handleDefault templates users (Req a) new_writer of
        (users', out) \<Rightarrow> (users', and_then out (\<lambda>w'. Running (finishRequest w'))))"
  by (auto simp: serveHTTP_def Let_def)

lemma serveHTTP_time:
  "URL_Path (Req a) = ''/time'' \<Longrightarrow>
   serveHTTP templates users a =
     (case handleTime templates users (Now a) (Req a) new_writer of
        (users', out) \<Rightarrow> (users', and_then out (\<lambda>w'. Running (finishRequest w'))))"
  by (simp add: serveHTTP_def Let_def)

lemma serveHTTP_logout:
  "URL_Path (Req a) = ''/logout'' \<Longrightarrow>
   serveHTTP templates users a =
     (case handleLogout templates users (Req a) new_writer of
        (users', out) \<Rightarrow> (users', and_then out (\<lambda>w'. Running (finishRequest w'))))"
  by (simp add: serveHTTP_def Let_def)

lemma default_redirects:
  assumes "URL_Path (Req a) = ''/'' \<or> URL_Path (Req a) = ''/index.html''" and "Method (Req a) = ''GET''"
    and "Users_Name users (fst (idFromUUIDCookie (Req a))) = []"
  shows "serveHTTP templates users a =
           (users, Running \<lparr>Status = Some 302, Set_Cookie = [], Location = Some ''/login'',
                            Body = [Anchor ''/login'']\<rparr>)"
  using assms(2,3)
  by (simp add: serveHTTP_default [OF assms(1)] handleDefault_def Let_def writer_defs and_then_def status_defs)

lemma default_greets:
  assumes "URL_Path (Req a) = ''/'' \<or> URL_Path (Req a) = ''/index.html''"
    and "Users_Name users (fst (idFromUUIDCookie (Req a))) = name" and "name \<noteq> []"
    and "''greetings.html'' \<in> set templates"
  shows "serveHTTP templates users a =
           (users, Running \<lparr>Status = Some 200, Set_Cookie = [], Location = None,
                            Body = [Page ''greetings.html'' (Str name)]\<rparr>)"
  using assms(2-4)
  by (simp add: serveHTTP_default [OF assms(1)] handleDefault_def Let_def writer_defs render_defs)

lemma Format_README: "Format \<lparr>Hour = 17, Minute = 59, Second = 36\<rparr> ''3:04:05 PM'' = ''5:59:36 PM''"
  by code_simp

section \<open>Login with a name that is rejected\<close>

text \<open>
  For every name that the check of the handler rejects, a POST to \<^verbatim>\<open>/login\<close> leaves the
  registry as it was, whatever the templates are; with the login view among the loaded
  templates the response is 400 with the login view rendered again on the message of the
  handler, and no cookie is set.
\<close>

lemma login_submit_rejected:
  assumes "URL_Path (Req a) = ''/login''" and "Method (Req a) = ''POST''"
    and "\<not> validName (FormValue (Req a) ''name'')"
  shows "fst (serveHTTP templates users a) = users \<and>
         (''login.html'' \<in> set templates \<longrightarrow>
            serveHTTP templates users a =
              (users,
               Running \<lparr>Status = Some 400, Set_Cookie = [], Location = None,
                        Body = [Page ''login.html'' (Str ''C'mon, I need a name.'')]\<rparr>))"
  using assms
  by (simp add: serveHTTP_login handleLogin_def Let_def writer_defs render_defs status_defs)

text \<open>
  Claim C3 says that every name the validation grammar rejects is answered with 400 and
  the login view, with no change of the registry and no cookie. The specification's
  examples of such names include a single word of 36 letters. The grammar rejects that
  word, but the handler registers a Person under the generated identifier, sets the
  session cookie and redirects to \<^verbatim>\<open>/\<close>.
\<close>

theorem word_of_36_letters_logs_in:
  "\<not> spec_name_grammar ''abcdefghijklmnopqrstuvwxyzabcdefghij'' \<and>
   length ''abcdefghijklmnopqrstuvwxyzabcdefghij'' = 36 \<and>
   serveHTTP [''login.html''] jane_only
       (arrival ''POST'' ''/login'' [] [(''name'', ''abcdefghijklmnopqrstuvwxyzabcdefghij'')]) =
     (jane_only(''id-1'' \<mapsto> \<lparr>ID = ''id-1'', Name = ''abcdefghijklmnopqrstuvwxyzabcdefghij''\<rparr>),
      Running \<lparr>Status = Some 302,
               Set_Cookie = [\<lparr>Cookie_Name = ''uuid'', Cookie_Value = ''id-1'',
                              Cookie_Path = ''/'', MaxAge = 86400\<rparr>],
               Location = Some ''/'', Body = []\<rparr>)"
proof -
  have "validName ''abcdefghijklmnopqrstuvwxyzabcdefghij''"
    by (simp add: validName_code in_class_def letters_def)
  then have "serveHTTP [''login.html''] jane_only
       (arrival ''POST'' ''/login'' [] [(''name'', ''abcdefghijklmnopqrstuvwxyzabcdefghij'')]) =
     (jane_only(''id-1'' \<mapsto> \<lparr>ID = ''id-1'', Name = ''abcdefghijklmnopqrstuvwxyzabcdefghij''\<rparr>),
      Running \<lparr>Status = Some 302,
               Set_Cookie = [\<lparr>Cookie_Name = ''uuid'', Cookie_Value = ''id-1'',
                              Cookie_Path = ''/'', MaxAge = 86400\<rparr>],
               Location = Some ''/'', Body = []\<rparr>)"
    by (simp add: serveHTTP_def handleLogin_def writer_defs render_defs status_defs NewPerson_def
        Users_Add_def arrival_def FormValue_def Let_def)
  moreover have "\<not> spec_name_grammar ''abcdefghijklmnopqrstuvwxyzabcdefghij''"
    by (simp add: spec_name_grammar_def in_class_def letters_def)
  ultimately show ?thesis by simp
qed

section \<open>Login with another method\<close>

text \<open>
  Claim C10. For every request to \<^verbatim>\<open>/login\<close> whose method is neither GET nor POST, the
  handler writes no body, sets no cookie and leaves the registry as it was; the client
  receives the empty response with the implicit status 200.
\<close>

theorem login_other_method:
  assumes "URL_Path (Req a) = ''/login''" and "Method (Req a) \<noteq> ''GET''" and "Method (Req a) \<noteq> ''POST''"
  shows "serveHTTP templates users a =
           (users, Running \<lparr>Status = Some 200, Set_Cookie = [], Location = None, Body = []\<rparr>)"
  using assms
  by (simp add: serveHTTP_login handleLogin_def writer_defs and_then_def)

theorem login_other_method_witness:
  "URL_Path (Req (arrival ''PUT'' ''/login'' [] [(''name'', ''Jane Doe'')])) = ''/login'' \<and>
   Method (Req (arrival ''PUT'' ''/login'' [] [(''name'', ''Jane Doe'')])) \<noteq> ''GET'' \<and>
   Method (Req (arrival ''PUT'' ''/login'' [] [(''name'', ''Jane Doe'')])) \<noteq> ''POST'' \<and>
   serveHTTP [] jane_only (arrival ''PUT'' ''/login'' [] [(''name'', ''Jane Doe'')]) =
     (jane_only, Running \<lparr>Status = Some 200, Set_Cookie = [], Location = None, Body = []\<rparr>)"
proof -
  have h: "URL_Path (Req (arrival ''PUT'' ''/login'' [] [(''name'', ''Jane Doe'')])) = ''/login''"
    "Method (Req (arrival ''PUT'' ''/login'' [] [(''name'', ''Jane Doe'')])) \<noteq> ''GET''"
    "Method (Req (arrival ''PUT'' ''/login'' [] [(''name'', ''Jane Doe'')])) \<noteq> ''POST''"
    by (simp_all add: arrival_def)
  show ?thesis
    using h login_other_method [where a = "arrival ''PUT'' ''/login'' [] [(''name'', ''Jane Doe'')]"
        and users = jane_only and templates = "[]"]
    by simp
qed

section \<open>The default route\<close>

text \<open>
  Claim C4. For every GET request to \<^verbatim>\<open>/\<close> or \<^verbatim>\<open>/index.html\<close>: if the identifier of
  the session cookie is in the registry with a name that is not empty, the response is 200
  with the greeting view rendered on that name (the greeting view being among the loaded
  templates); if the lookup gives the empty name, the response is a 302 to \<^verbatim>\<open>/login\<close>
  on which no view is rendered, its body being the anchor that the redirect itself writes
  for a GET. The lookup gives the empty name when the cookie's identifier is not in the
  registry, and when there is no cookie, the handler then looking the empty identifier up
  and the registry holding nobody under it.
\<close>

theorem default_greets_or_redirects:
  assumes "URL_Path (Req a) = ''/'' \<or> URL_Path (Req a) = ''/index.html''" and "Method (Req a) = ''GET''"
  shows "(\<forall>i p. Request_Cookie (Req a) COOKIE_NAME = Inr i \<and> users i = Some p \<and> Name p \<noteq> [] \<and>
                ''greetings.html'' \<in> set templates \<longrightarrow>
            serveHTTP templates users a =
              (users, Running \<lparr>Status = Some 200, Set_Cookie = [], Location = None,
                               Body = [Page ''greetings.html'' (Str (Name p))]\<rparr>)) \<and>
         (Users_Name users (fst (idFromUUIDCookie (Req a))) = [] \<longrightarrow>
            serveHTTP templates users a =
              (users, Running \<lparr>Status = Some 302, Set_Cookie = [], Location = Some ''/login'',
                               Body = [Anchor ''/login'']\<rparr>)) \<and>
         (\<forall>i. Request_Cookie (Req a) COOKIE_NAME = Inr i \<and> users i = None \<longrightarrow>
            serveHTTP templates users a =
              (users, Running \<lparr>Status = Some 302, Set_Cookie = [], Location = Some ''/login'',
                               Body = [Anchor ''/login'']\<rparr>)) \<and>
         (Request_Cookie (Req a) COOKIE_NAME = Inl ErrNoCookie \<and> users [] = None \<longrightarrow>
            serveHTTP templates users a =
              (users, Running \<lparr>Status = Some 302, Set_Cookie = [], Location = Some ''/login'',
                               Body = [Anchor ''/login'']\<rparr>))"
proof (intro conjI allI impI)
  fix i p
  assume "Request_Cookie (Req a) COOKIE_NAME = Inr i \<and> users i = Some p \<and> Name p \<noteq> [] \<and>
          ''greetings.html'' \<in> set templates"
  then show "serveHTTP templates users a =
              (users, Running \<lparr>Status = Some 200, Set_Cookie = [], Location = None,
                               Body = [Page ''greetings.html'' (Str (Name p))]\<rparr>)"
    by (intro default_greets [OF assms(1)]) (simp_all add: idFromUUIDCookie_def Users_Name_def)
next
  assume "Users_Name users (fst (idFromUUIDCookie (Req a))) = []"
  then show "serveHTTP templates users a =
              (users, Running \<lparr>Status = Some 302, Set_Cookie = [], Location = Some ''/login'',
                               Body = [Anchor ''/login'']\<rparr>)"
    by (rule default_redirects [OF assms])
next
  fix i
  assume "Request_Cookie (Req a) COOKIE_NAME = Inr i \<and> users i = None"
  then have "Users_Name users (fst (idFromUUIDCookie (Req a))) = []"
    by (simp add: idFromUUIDCookie_def Users_Name_def)
  then show "serveHTTP templates users a =
              (users, Running \<lparr>Status = Some 302, Set_Cookie = [], Location = Some ''/login'',
                               Body = [Anchor ''/login'']\<rparr>)"
    by (rule default_redirects [OF assms])
next
  assume "Request_Cookie (Req a) COOKIE_NAME = Inl ErrNoCookie \<and> users [] = None"
  then have "Users_Name users (fst (idFromUUIDCookie (Req a))) = []"
    by (simp add: idFromUUIDCookie_def Users_Name_def)
  then show "serveHTTP templates users a =
              (users, Running \<lparr>Status = Some 302, Set_Cookie = [], Location = Some ''/login'',
                               Body = [Anchor ''/login'']\<rparr>)"
    by (rule default_redirects [OF assms])
qed

theorem default_greets_or_redirects_witness:
  "(URL_Path (Req (arrival ''GET'' ''/'' [(''uuid'', ''id-0'')] [])) = ''/'' \<or>
    URL_Path (Req (arrival ''GET'' ''/'' [(''uuid'', ''id-0'')] [])) = ''/index.html'') \<and>
   Method (Req (arrival ''GET'' ''/'' [(''uuid'', ''id-0'')] [])) = ''GET'' \<and>
   Request_Cookie (Req (arrival ''GET'' ''/'' [(''uuid'', ''id-0'')] [])) COOKIE_NAME = Inr ''id-0'' \<and>
   jane_only ''id-0'' = Some \<lparr>ID = ''id-0'', Name = ''Jane Doe''\<rparr> \<and>
   Name \<lparr>ID = ''id-0'', Name = ''Jane Doe''\<rparr> \<noteq> [] \<and>
   ''greetings.html'' \<in> set [''greetings.html''] \<and>
   serveHTTP [''greetings.html''] jane_only (arrival ''GET'' ''/'' [(''uuid'', ''id-0'')] []) =
     (jane_only, Running \<lparr>Status = Some 200, Set_Cookie = [], Location = None,
                          Body = [Page ''greetings.html'' (Str ''Jane Doe'')]\<rparr>) \<and>
   (URL_Path (Req (arrival ''GET'' ''/index.html'' [] [])) = ''/'' \<or>
    URL_Path (Req (arrival ''GET'' ''/index.html'' [] [])) = ''/index.html'') \<and>
   Method (Req (arrival ''GET'' ''/index.html'' [] [])) = ''GET'' \<and>
   Request_Cookie (Req (arrival ''GET'' ''/index.html'' [] [])) COOKIE_NAME = Inl ErrNoCookie \<and>
   jane_only [] = None \<and>
   serveHTTP [''greetings.html''] jane_only (arrival ''GET'' ''/index.html'' [] []) =
     (jane_only, Running \<lparr>Status = Some 302, Set_Cookie = [], Location = Some ''/login'',
                          Body = [Anchor ''/login'']\<rparr>)"
proof -
  have a: "URL_Path (Req (arrival ''GET'' ''/'' [(''uuid'', ''id-0'')] [])) = ''/'' \<or>
           URL_Path (Req (arrival ''GET'' ''/'' [(''uuid'', ''id-0'')] [])) = ''/index.html''"
    "Method (Req (arrival ''GET'' ''/'' [(''uuid'', ''id-0'')] [])) = ''GET''"
    by (simp_all add: arrival_def)
  have a': "Request_Cookie (Req (arrival ''GET'' ''/'' [(''uuid'', ''id-0'')] [])) COOKIE_NAME = Inr ''id-0'' \<and>
            jane_only ''id-0'' = Some \<lparr>ID = ''id-0'', Name = ''Jane Doe''\<rparr> \<and>
            Name \<lparr>ID = ''id-0'', Name = ''Jane Doe''\<rparr> \<noteq> [] \<and>
            ''greetings.html'' \<in> set [''greetings.html'']"
    by (simp add: arrival_def Request_Cookie_def COOKIE_NAME_def jane_only_def registry_defs)
  have b: "URL_Path (Req (arrival ''GET'' ''/index.html'' [] [])) = ''/'' \<or>
           URL_Path (Req (arrival ''GET'' ''/index.html'' [] [])) = ''/index.html''"
    "Method (Req (arrival ''GET'' ''/index.html'' [] [])) = ''GET''"
    by (simp_all add: arrival_def)
  have b': "Request_Cookie (Req (arrival ''GET'' ''/index.html'' [] [])) COOKIE_NAME = Inl ErrNoCookie \<and>
            jane_only [] = None"
    by (simp add: arrival_def Request_Cookie_def jane_only_def registry_defs)
  note greet = default_greets_or_redirects [OF a, where users = jane_only and templates = "[''greetings.html'']",
      THEN conjunct1, rule_format, OF a']
  note redirect = default_greets_or_redirects [OF b, where users = jane_only and templates = "[''greetings.html'']",
      THEN conjunct2, THEN conjunct2, THEN conjunct2, rule_format, OF b']
  show ?thesis
    using a a' b b' greet redirect by simp
qed

section \<open>The time route\<close>

text \<open>
  Claim C8. For every request to \<^verbatim>\<open>/time\<close> (the time view being among the loaded
  templates), the response is 200 with the time view rendered on the current time in the
  layout \<^verbatim>\<open>3:04:05 PM\<close> and on the name looked up for the identifier of the session
  cookie: the person's name when the identifier is in the registry, the empty string when
  it is not, or when there is no cookie and the registry holds nobody under the empty
  identifier. A miss changes neither the status nor the view.
\<close>

theorem time_view:
  assumes "URL_Path (Req a) = ''/time''" and "''time.html'' \<in> set templates"
  shows "serveHTTP templates users a =
           (users,
            Running \<lparr>Status = Some 200, Set_Cookie = [], Location = None,
                     Body = [Page ''time.html''
                               (Params [(''time'', Format (Now a) ''3:04:05 PM''),
                                        (''name'', Users_Name users (fst (idFromUUIDCookie (Req a))))])]\<rparr>) \<and>
         (\<forall>i p. Request_Cookie (Req a) COOKIE_NAME = Inr i \<and> users i = Some p \<longrightarrow>
            Users_Name users (fst (idFromUUIDCookie (Req a))) = Name p) \<and>
         (\<forall>i. Request_Cookie (Req a) COOKIE_NAME = Inr i \<and> users i = None \<longrightarrow>
            Users_Name users (fst (idFromUUIDCookie (Req a))) = []) \<and>
         (Request_Cookie (Req a) COOKIE_NAME = Inl ErrNoCookie \<and> users [] = None \<longrightarrow>
            Users_Name users (fst (idFromUUIDCookie (Req a))) = [])"
proof -
  have "serveHTTP templates users a =
           (users,
            Running \<lparr>Status = Some 200, Set_Cookie = [], Location = None,
                     Body = [Page ''time.html''
                               (Params [(''time'', Format (Now a) ''3:04:05 PM''),
                                        (''name'', Users_Name users (fst (idFromUUIDCookie (Req a))))])]\<rparr>)"
    using assms(2)
    by (simp add: serveHTTP_time [OF assms(1)] handleTime_def Let_def writer_defs render_defs TIME_LAYOUT_def)
  then show ?thesis
    by (simp add: idFromUUIDCookie_def Users_Name_def)
qed

theorem time_view_witness:
  "URL_Path (Req (arrival ''GET'' ''/time'' [(''uuid'', ''stale'')] [])) = ''/time'' \<and>
   ''time.html'' \<in> set [''time.html''] \<and>
   Request_Cookie (Req (arrival ''GET'' ''/time'' [(''uuid'', ''stale'')] [])) COOKIE_NAME = Inr ''stale'' \<and>
   jane_only ''stale'' = None \<and>
   serveHTTP [''time.html''] jane_only (arrival ''GET'' ''/time'' [(''uuid'', ''stale'')] []) =
     (jane_only,
      Running \<lparr>Status = Some 200, Set_Cookie = [], Location = None,
               Body = [Page ''time.html'' (Params [(''time'', ''5:59:36 PM''), (''name'', [])])]\<rparr>)"
proof -
  have h: "URL_Path (Req (arrival ''GET'' ''/time'' [(''uuid'', ''stale'')] [])) = ''/time''"
    "''time.html'' \<in> set [''time.html'']"
    by (simp_all add: arrival_def)
  have h': "Request_Cookie (Req (arrival ''GET'' ''/time'' [(''uuid'', ''stale'')] [])) COOKIE_NAME = Inr ''stale'' \<and>
            jane_only ''stale'' = None"
    by (simp add: arrival_def Request_Cookie_def COOKIE_NAME_def jane_only_def registry_defs)
  note t = time_view [OF h, where users = jane_only]
  note miss = t [THEN conjunct2, THEN conjunct2, THEN conjunct1, rule_format, OF h']
  have "Now (arrival ''GET'' ''/time'' [(''uuid'', ''stale'')] []) = \<lparr>Hour = 17, Minute = 59, Second = 36\<rparr>"
    by (simp add: arrival_def)
  then have fmt: "Format (Now (arrival ''GET'' ''/time'' [(''uuid'', ''stale'')] [])) ''3:04:05 PM'' = ''5:59:36 PM''"
    by (simp only: Format_README)
  note eq = t [THEN conjunct1, unfolded miss fmt]
  show ?thesis
    using h h' eq by simp
qed

lemmas eval_defs =
  serveHTTP_def handleDefault_def handleLogin_def handleLogout_def handleTime_def handleNotFound_def
  writer_defs render_defs status_defs registry_defs arrival_def jane_only_def
  FormValue_def Request_Cookie_def idFromUUIDCookie_def validName_code in_class_def letters_def Let_def

lemma logout_once:
  assumes "URL_Path (Req a) = ''/logout''" and "''logged-out.html'' \<in> set templates"
  shows "serveHTTP templates users a =
           (users,
            Running \<lparr>Status = Some 200,
                     Set_Cookie = [\<lparr>Cookie_Name = ''uuid'', Cookie_Value = ''deleted'',
                                    Cookie_Path = ''/'', MaxAge = - 1\<rparr>],
                     Location = None, Body = [Page ''logged-out.html'' Nil_data]\<rparr>)"
  using assms(2)
  by (simp add: serveHTTP_logout [OF assms(1)] handleLogout_def Let_def writer_defs render_defs status_defs)

lemma serveHTTP_registry:
  "fst (serveHTTP templates users a) = users \<or>
   (URL_Path (Req a) = ''/login'' \<and> Method (Req a) = ''POST'' \<and>
    validName (FormValue (Req a) ''name'') \<and>
    fst (serveHTTP templates users a) =
      users(NewID a \<mapsto> \<lparr>ID = NewID a, Name = FormValue (Req a) ''name''\<rparr>))"
  by (simp add: serveHTTP_def Let_def handleDefault_def handleLogin_def handleLogout_def
      handleTime_def handleNotFound_def registry_defs split: prod.splits)

lemma serveHTTP_map_le:
  assumes "users (NewID a) = None"
  shows "users \<subseteq>\<^sub>m fst (serveHTTP templates users a)"
  using serveHTTP_registry [of templates users a] assms
  by (auto simp: map_le_def)

lemma run_Cons_Alive:
  assumes "fst (run templates users (a # as)) = Alive users'"
  shows "fst (run templates (fst (serveHTTP templates users a)) as) = Alive users'"
  using assms by (auto split: prod.splits outcome.splits)

lemma run_map_le:
  "fresh_ids templates users as \<Longrightarrow> fst (run templates users as) = Alive users' \<Longrightarrow> users \<subseteq>\<^sub>m users'"
proof (induction as arbitrary: users)
  case Nil
  then show ?case by simp
next
  case (Cons a as)
  have "users \<subseteq>\<^sub>m fst (serveHTTP templates users a)"
    using Cons.prems(1) by (intro serveHTTP_map_le) simp
  moreover have "fst (serveHTTP templates users a) \<subseteq>\<^sub>m users'"
    using Cons.prems by (intro Cons.IH run_Cons_Alive) simp_all
  ultimately show ?case by (rule map_le_trans)
qed

lemma renderTemplate_missing:
  "templ @ ''.html'' \<notin> set templates \<Longrightarrow> renderTemplate templates w templ d = Exited 1 w"
  by (simp add: render_defs)

lemma renderTemplate_found:
  "templ @ ''.html'' \<in> set templates \<Longrightarrow>
   renderTemplate templates w templ d = Running (Write w (Page (templ @ ''.html'') d))"
  by (simp add: render_defs)

section \<open>The logout route\<close>

text \<open>
  Claim C7. Logging out is idempotent: for every sequence of requests to \<^verbatim>\<open>/logout\<close>,
  whatever their method and cookies and however many they are, every response is 200 with
  the logged-out view rendered (the view being among the loaded templates) and with the
  cookie \<open>uuid\<close> set to \<open>deleted\<close> with MaxAge -1, and the registry is the same at the end.
\<close>

theorem logout_idempotent:
  assumes "''logged-out.html'' \<in> set templates" and "\<forall>a\<in>set as. URL_Path (Req a) = ''/logout''"
  shows "run templates users as =
           (Alive users,
            replicate (length as)
              \<lparr>Status = Some 200,
               Set_Cookie = [\<lparr>Cookie_Name = ''uuid'', Cookie_Value = ''deleted'',
                              Cookie_Path = ''/'', MaxAge = - 1\<rparr>],
               Location = None, Body = [Page ''logged-out.html'' Nil_data]\<rparr>)"
  using assms(2)
proof (induction as)
  case Nil
  show ?case by simp
next
  case (Cons a as)
  then have "URL_Path (Req a) = ''/logout''" by simp
  from logout_once [OF this assms(1)] Cons show ?case by simp
qed

theorem logout_idempotent_witness:
  "''logged-out.html'' \<in> set [''logged-out.html''] \<and>
   URL_Path (Req (arrival ''GET'' ''/logout'' [(''uuid'', ''id-0'')] [])) = ''/logout'' \<and>
   URL_Path (Req (arrival ''GET'' ''/logout'' [] [])) = ''/logout'' \<and>
   URL_Path (Req (arrival ''POST'' ''/logout'' [(''uuid'', ''deleted'')] [])) = ''/logout'' \<and>
   run [''logged-out.html''] jane_only
     [arrival ''GET'' ''/logout'' [(''uuid'', ''id-0'')] [], arrival ''GET'' ''/logout'' [] [],
      arrival ''POST'' ''/logout'' [(''uuid'', ''deleted'')] []] =
     (Alive jane_only,
      [\<lparr>Status = Some 200,
        Set_Cookie = [\<lparr>Cookie_Name = ''uuid'', Cookie_Value = ''deleted'', Cookie_Path = ''/'', MaxAge = - 1\<rparr>],
        Location = None, Body = [Page ''logged-out.html'' Nil_data]\<rparr>,
       \<lparr>Status = Some 200,
        Set_Cookie = [\<lparr>Cookie_Name = ''uuid'', Cookie_Value = ''deleted'', Cookie_Path = ''/'', MaxAge = - 1\<rparr>],
        Location = None, Body = [Page ''logged-out.html'' Nil_data]\<rparr>,
       \<lparr>Status = Some 200,
        Set_Cookie = [\<lparr>Cookie_Name = ''uuid'', Cookie_Value = ''deleted'', Cookie_Path = ''/'', MaxAge = - 1\<rparr>],
        Location = None, Body = [Page ''logged-out.html'' Nil_data]\<rparr>])"
proof -
  have h: "''logged-out.html'' \<in> set [''logged-out.html'']"
    "\<forall>a\<in>set [arrival ''GET'' ''/logout'' [(''uuid'', ''id-0'')] [], arrival ''GET'' ''/logout'' [] [],
              arrival ''POST'' ''/logout'' [(''uuid'', ''deleted'')] []].
      URL_Path (Req a) = ''/logout''"
    by (simp_all add: arrival_def)
  have three: "replicate (length [x, y, z]) w = [w, w, w]" for x y z :: Arrival and w :: ResponseWriter
    by (simp add: numeral_3_eq_3)
  have p: "URL_Path (Req (arrival ''GET'' ''/logout'' [(''uuid'', ''id-0'')] [])) = ''/logout''"
    "URL_Path (Req (arrival ''GET'' ''/logout'' [] [])) = ''/logout''"
    "URL_Path (Req (arrival ''POST'' ''/logout'' [(''uuid'', ''deleted'')] [])) = ''/logout''"
    by (simp_all add: arrival_def)
  show ?thesis
    using h(1) p logout_idempotent [OF h, where users = jane_only] unfolding three by simp
qed

section \<open>The registry only grows\<close>

text \<open>
  Claim C6. Along every sequence of handled requests the registry only grows. Whenever
  the process is alive after a run on fresh identifiers, every entry of the registry at
  the start is still there, with the same Person; so no entry is removed or changed,
  and an identifier has one Person for as long as the process lives. A single request
  either leaves the registry as it was, or it is a POST to \<^verbatim>\<open>/login\<close> with a name the
  check accepts, which adds the Person of the generated identifier and that name: exactly
  one new entry, the identifier being fresh.
\<close>

theorem registry_append_only:
  "(fresh_ids templates users as \<and> fst (run templates users as) = Alive users' \<longrightarrow>
      users \<subseteq>\<^sub>m users' \<and> dom users \<subseteq> dom users' \<and>
      (\<forall>i p. users i = Some p \<longrightarrow> users' i = Some p)) \<and>
   (fst (serveHTTP templates users a) = users \<or>
    (URL_Path (Req a) = ''/login'' \<and> Method (Req a) = ''POST'' \<and>
     validName (FormValue (Req a) ''name'') \<and>
     fst (serveHTTP templates users a) =
       users(NewID a \<mapsto> \<lparr>ID = NewID a, Name = FormValue (Req a) ''name''\<rparr>))) \<and>
   (users (NewID a) = None \<and> fst (serveHTTP templates users a) \<noteq> users \<longrightarrow>
      dom (fst (serveHTTP templates users a)) = insert (NewID a) (dom users) \<and>
      NewID a \<notin> dom users)"
proof (intro conjI impI)
  assume h: "fresh_ids templates users as \<and> fst (run templates users as) = Alive users'"
  then show le: "users \<subseteq>\<^sub>m users'"
    using run_map_le [of templates users as users'] by blast
  then show "dom users \<subseteq> dom users'" by (rule map_le_implies_dom_le)
  show "\<forall>i p. users i = Some p \<longrightarrow> users' i = Some p"
    using le by (auto simp: map_le_def dom_def)
next
  show "fst (serveHTTP templates users a) = users \<or>
    (URL_Path (Req a) = ''/login'' \<and> Method (Req a) = ''POST'' \<and>
     validName (FormValue (Req a) ''name'') \<and>
     fst (serveHTTP templates users a) =
       users(NewID a \<mapsto> \<lparr>ID = NewID a, Name = FormValue (Req a) ''name''\<rparr>))"
    by (rule serveHTTP_registry)
next
  assume h: "users (NewID a) = None \<and> fst (serveHTTP templates users a) \<noteq> users"
  then have "fst (serveHTTP templates users a) =
       users(NewID a \<mapsto> \<lparr>ID = NewID a, Name = FormValue (Req a) ''name''\<rparr>)"
    using serveHTTP_registry [of templates users a] by blast
  then show "dom (fst (serveHTTP templates users a)) = insert (NewID a) (dom users)"
    by simp
  show "NewID a \<notin> dom users" using h by (simp add: dom_def)
qed

theorem registry_append_only_witness:
  "fresh_ids [''logged-out.html''] jane_only
     [arrival ''POST'' ''/login'' [] [(''name'', ''John'')],
      (arrival ''GET'' ''/logout'' [(''uuid'', ''id-1'')] [])\<lparr>NewID := ''id-2''\<rparr>] \<and>
   fst (run [''logged-out.html''] jane_only
     [arrival ''POST'' ''/login'' [] [(''name'', ''John'')],
      (arrival ''GET'' ''/logout'' [(''uuid'', ''id-1'')] [])\<lparr>NewID := ''id-2''\<rparr>]) =
     Alive (jane_only(''id-1'' \<mapsto> \<lparr>ID = ''id-1'', Name = ''John''\<rparr>)) \<and>
   jane_only \<subseteq>\<^sub>m jane_only(''id-1'' \<mapsto> \<lparr>ID = ''id-1'', Name = ''John''\<rparr>) \<and>
   jane_only (NewID (arrival ''POST'' ''/login'' [] [(''name'', ''John'')])) = None \<and>
   fst (serveHTTP [''logged-out.html''] jane_only (arrival ''POST'' ''/login'' [] [(''name'', ''John'')])) \<noteq> jane_only \<and>
   dom (fst (serveHTTP [''logged-out.html''] jane_only (arrival ''POST'' ''/login'' [] [(''name'', ''John'')]))) =
     insert ''id-1'' (dom jane_only)"
proof -
  let ?as = "[arrival ''POST'' ''/login'' [] [(''name'', ''John'')],
      (arrival ''GET'' ''/logout'' [(''uuid'', ''id-1'')] [])\<lparr>NewID := ''id-2''\<rparr>]"
  let ?a = "arrival ''POST'' ''/login'' [] [(''name'', ''John'')]"
  let ?users' = "jane_only(''id-1'' \<mapsto> \<lparr>ID = ''id-1'', Name = ''John''\<rparr>)"
  have step: "serveHTTP [''logged-out.html''] jane_only ?a =
      (?users', Running \<lparr>Status = Some 302,
                     Set_Cookie = [\<lparr>Cookie_Name = ''uuid'', Cookie_Value = ''id-1'',
                                    Cookie_Path = ''/'', MaxAge = 86400\<rparr>],
                     Location = Some ''/'', Body = []\<rparr>)"
    by (simp add: eval_defs)
  have step2: "serveHTTP [''logged-out.html''] ?users' ((arrival ''GET'' ''/logout'' [(''uuid'', ''id-1'')] [])\<lparr>NewID := ''id-2''\<rparr>) =
      (?users', Running \<lparr>Status = Some 200,
                     Set_Cookie = [\<lparr>Cookie_Name = ''uuid'', Cookie_Value = ''deleted'',
                                    Cookie_Path = ''/'', MaxAge = - 1\<rparr>],
                     Location = None, Body = [Page ''logged-out.html'' Nil_data]\<rparr>)"
    by (simp add: eval_defs)
  have f: "fresh_ids [''logged-out.html''] jane_only ?as"
    by (simp add: step) (simp add: arrival_def jane_only_def registry_defs)
  have r: "fst (run [''logged-out.html''] jane_only ?as) = Alive ?users'"
    by (simp add: step step2)
  have n: "jane_only (NewID ?a) = None"
    by (simp add: arrival_def jane_only_def registry_defs)
  have d: "fst (serveHTTP [''logged-out.html''] jane_only ?a) \<noteq> jane_only"
  proof
    assume "fst (serveHTTP [''logged-out.html''] jane_only ?a) = jane_only"
    then have "?users' ''id-1'' = jane_only ''id-1''" by (simp add: step)
    then show False by (simp add: jane_only_def registry_defs)
  qed
  note t = registry_append_only [where templates = "[''logged-out.html'']" and users = jane_only
      and as = ?as and users' = ?users' and a = ?a]
  have "jane_only \<subseteq>\<^sub>m ?users'"
    using t f r by blast
  moreover have "dom (fst (serveHTTP [''logged-out.html''] jane_only ?a)) = insert (NewID ?a) (dom jane_only)"
    using t n d by blast
  moreover have "NewID ?a = ''id-1''" by (simp add: arrival_def)
  ultimately show ?thesis
    using f r n d by simp
qed

section \<open>A view that is missing\<close>

text \<open>
  Claim C5 says that a missing view ends the process and that the error is also written
  to the response as a 500 before the process exits. The code calls \<^verbatim>\<open>log.Fatal\<close> first
  and \<^verbatim>\<open>http.Error\<close> after it: with the login view missing, a GET of \<^verbatim>\<open>/login\<close> exits
  the process with code 1, and nothing has been written to the response at that point, no
  status 500 and no body. No later request is answered.
\<close>

theorem missing_view_exits_without_500:
  "renderTemplate [''time.html''] new_writer ''login'' Nil_data =
     Exited 1 \<lparr>Status = None, Set_Cookie = [], Location = None, Body = []\<rparr> \<and>
   serveHTTP [''time.html''] jane_only (arrival ''GET'' ''/login'' [] []) =
     (jane_only, Exited 1 \<lparr>Status = None, Set_Cookie = [], Location = None, Body = []\<rparr>) \<and>
   run [''time.html''] jane_only [arrival ''GET'' ''/login'' [] [], arrival ''GET'' ''/time'' [] []] =
     (Dead 1, [])"
  by (simp add: eval_defs)

section \<open>The name check against the grammar in prose\<close>

text \<open>
  The check accepts exactly the names of the specification's grammar and, beyond them,
  the unbroken runs of 36 to 70 letters: the space of the pattern is optional on its own,
  so the two runs of letters may follow each other directly.
\<close>

lemma dropWhile_Cons_not_all: "dropWhile P s = c # b \<Longrightarrow> \<not> list_all P s"
  using dropWhile_eq_Nil_conv [of P s] by (auto simp: list_all_iff)

lemma dropWhile_Nil_all: "dropWhile P s = [] \<Longrightarrow> takeWhile P s = s \<and> list_all P s"
  using takeWhile_dropWhile_id [of P s] by (auto simp: list_all_iff)

lemma validName_iff_spec:
  "validName s \<longleftrightarrow>
     spec_name_grammar s \<or> (list_all (in_class letters) s \<and> 36 \<le> length s \<and> length s \<le> 70)"
proof (cases "dropWhile (in_class letters) s")
  case Nil
  have tw: "takeWhile (in_class letters) s = s" and la: "list_all (in_class letters) s"
    using dropWhile_Nil_all [OF Nil] by blast+
  show ?thesis
    unfolding validName_code spec_name_grammar_def Let_def Nil tw using la by auto
next
  case (Cons c b)
  from dropWhile_Cons_not_all [OF this] show ?thesis
    unfolding validName_code spec_name_grammar_def Let_def Cons by auto
qed

lemma spec_name_grammar_imp_validName: "spec_name_grammar s \<Longrightarrow> validName s"
  by (simp add: validName_iff_spec)

text \<open>
  Claim C2 says that a name is accepted if and only if it is one run of 2 to 35 letters,
  optionally followed by a single space and a second run of 0 to 35 letters, and that
  overlong runs are rejected. On a single word of 36 letters the code differs: the check
  accepts it, the grammar does not.
\<close>

theorem unbroken_36_letters_accepted:
  "validName ''aaaaaaaaaaaaaaaaaaaaaaaaaaaaaaaaaaaa'' \<and>
   length ''aaaaaaaaaaaaaaaaaaaaaaaaaaaaaaaaaaaa'' = 36 \<and>
   \<not> spec_name_grammar ''aaaaaaaaaaaaaaaaaaaaaaaaaaaaaaaaaaaa''"
proof -
  have "validName ''aaaaaaaaaaaaaaaaaaaaaaaaaaaaaaaaaaaa''"
    by (simp add: validName_code in_class_def letters_def)
  moreover have "\<not> spec_name_grammar ''aaaaaaaaaaaaaaaaaaaaaaaaaaaaaaaaaaaa''"
    by (simp add: spec_name_grammar_def in_class_def letters_def)
  ultimately show ?thesis by simp
qed

section \<open>Start-up\<close>

text \<open>
  \<open>main\<close> of server.go serves on the port given, on 8080 by default, and with \<^verbatim>\<open>-V\<close>
  prints the version and exits with code 1. \<open>main\<close> of version v1.0.1 prints its version
  in the same way, but when it serves, it serves on 8080 whatever the flags say.
\<close>

lemma flag_Parse_port: "flag_Parse f [''--port'', p] = Inr (f\<lparr>port := p\<rparr>)"
  by simp

lemma main_port: "main [''--port'', p] = ListenAndServe ('':'' @ p)"
  by (simp add: main_def flag_defaults_def)

lemma main_default: "main [] = ListenAndServe '':8080''"
  by (simp add: main_def flag_defaults_def)

lemma main_V: "main [''-V''] = Exit 1 (''Version number: v1.0.8 '' @ newline)"
  by (simp add: main_def flag_defaults_def VERSION_NUMBER_def)

lemma main_v101_V: "main_v101 [''-V''] = Exit 1 (''Version number: v1.0.1 '' @ newline)"
  by (simp add: main_v101_def flag_defaults_def)

lemma main_v101_serves_8080:
  "flag_Parse flag_defaults args = Inr f \<Longrightarrow> \<not> V f \<Longrightarrow> main_v101 args = ListenAndServe '':8080''"
  by (simp add: main_v101_def flag_defaults_def)

text \<open>
  Claim C9 says that the process started with \<^verbatim>\<open>--port\<close> serves on that port. Started
  with \<^verbatim>\<open>--port 9001\<close>, \<open>main\<close> of server.go listens on \<^verbatim>\<open>:9001\<close>, while \<open>main\<close> of
  version v1.0.1, which reads the port variable before it parses the flags, listens on
  \<^verbatim>\<open>:8080\<close>.
\<close>

theorem v101_ignores_port:
  "main_v101 [''--port'', ''9001''] = ListenAndServe '':8080'' \<and>
   main [''--port'', ''9001''] = ListenAndServe '':9001''"
  by (simp add: main_v101_def main_def flag_defaults_def)

end
